theory Spec2Isabelle
  imports Complex_Main "HOL-Library.Multiset"
begin

section \<open>Stations, routes and the store of Route objects\<close>

text \<open>
  A \<^verbatim>\<open>Station\<close> object defines neither \<^verbatim>\<open>__eq__\<close> nor \<^verbatim>\<open>__hash__\<close>, so Python compares
  and hashes it by identity. A station is therefore its identity, a natural number. The
  dictionaries \<^verbatim>\<open>station.time_to\<close> are filled once (\<^verbatim>\<open>SetTimeTo\<close>) before the genetic
  algorithm starts and are only read by it: \<open>tt a\<close> is the dictionary of station \<open>a\<close>.
  Durations are exact numbers here; the rounding of IEEE doubles is not modelled.
\<close>

type_synonym station = nat

type_synonym time_to = "station \<Rightarrow> station \<rightharpoonup> real"

text \<open>
  The exceptions of the Python code. \<open>KeyError k\<close> carries the missing key, as Python's
  does. \<open>NoDraw\<close> and \<open>NonFinite\<close> are no exceptions: they mark where the model stops
  (see \<open>random_random\<close> and \<open>SetParentsFitness\<close>).
\<close>

datatype error = KeyError station | ValueError | IndexError | NoDraw | NonFinite

record route =
  path :: "station list"
  time_taken :: real

text \<open>
  \<^verbatim>\<open>Route\<close> objects have no \<^verbatim>\<open>__eq__\<close> either, and \<^verbatim>\<open>SelectParents\<close> compares them with
  \<^verbatim>\<open>==\<close>, that is by identity. Route objects live in a store, a list indexed by address; a
  population is a list of addresses. Creating an object appends it to the store.
\<close>

type_synonym ref = nat

type_synonym store = "route list"

subsection \<open>Python list methods\<close>

definition list_remove :: "'a list \<Rightarrow> 'a \<Rightarrow> error + 'a list" where
  "list_remove xs x = (if x \<in> set xs then Inr (remove1 x xs) else Inl ValueError)"

definition list_insert :: "nat \<Rightarrow> 'a \<Rightarrow> 'a list \<Rightarrow> 'a list" where
  "list_insert i x xs = take i xs @ x # drop i xs"

fun list_index :: "'a list \<Rightarrow> 'a \<Rightarrow> error + nat" where
  "list_index [] x = Inl ValueError"
| "list_index (y # ys) x =
     (if y = x then Inr 0
      else case list_index ys x of Inl e \<Rightarrow> Inl e | Inr i \<Rightarrow> Inr (Suc i))"

definition list_del :: "nat \<Rightarrow> 'a list \<Rightarrow> 'a list" where
  "list_del i xs = take i xs @ drop (Suc i) xs"

definition slice :: "'a list \<Rightarrow> nat \<Rightarrow> nat \<Rightarrow> 'a list" where
  "slice xs lo hi = take (hi - lo) (drop lo xs)"

subsection \<open>Route.__init__\<close>

text \<open>
  The loop \<^verbatim>\<open>for i in range(len(self.path) - 1): duration += from_station.time_to[to_station]\<close>.
  A missing key raises \<^verbatim>\<open>KeyError\<close>.
\<close>

fun duration_loop :: "time_to \<Rightarrow> station list \<Rightarrow> real \<Rightarrow> error + real" where
  "duration_loop tt (from_station # to_station # rest) duration =
     (case tt from_station to_station of
        None \<Rightarrow> Inl (KeyError to_station)
      | Some d \<Rightarrow> duration_loop tt (to_station # rest) (duration + d))"
| "duration_loop tt [from_station] duration = Inr duration"
| "duration_loop tt [] duration = Inr duration"

definition Route :: "time_to \<Rightarrow> station list \<Rightarrow> store \<Rightarrow> error + ref \<times> store" where
  "Route tt p h =
     (case duration_loop tt p 0 of
        Inl e \<Rightarrow> Inl e
      | Inr d \<Rightarrow> Inr (length h, h @ [\<lparr>path = p, time_taken = d\<rparr>]))"

text \<open>
  The duration of a path in the words of the specification: the sum over
  \<open>i = 0 \<dots> n - 2\<close> of the duration from \<open>path[i]\<close> to \<open>path[i+1]\<close>.
\<close>

definition pairwise_sum :: "time_to \<Rightarrow> station list \<Rightarrow> real" where
  "pairwise_sum tt p = sum_list (map (\<lambda>i. the (tt (p ! i) (p ! Suc i))) [0..<length p - 1])"

section \<open>The random module\<close>

text \<open>
  Python's \<^verbatim>\<open>random\<close> module is a library outside the repository. The model is given the
  values the module returns to the program, in call order, as a tape; every call takes the
  next entry. An entry that the called function cannot return (a \<^verbatim>\<open>random()\<close> outside
  \<open>[0, 1)\<close>, a \<^verbatim>\<open>randint(a, b)\<close> outside \<open>[a, b]\<close>, a \<^verbatim>\<open>sample\<close> that is no selection from its
  argument, an entry of another call) describes no run of the program, and neither does a
  tape that has ended: the model stops there with \<open>NoDraw\<close>. A loop that redraws until
  a condition holds takes one entry in each round, so a run that redraws forever is a run
  that reaches the end of every finite tape.
  The program calls \<^verbatim>\<open>randint(1, b)\<close> only, whose values are positive; they are held as
  naturals.
\<close>

datatype draw = Random real | RandInt nat | Sample "station list"

type_synonym tape = "draw list"

fun random_random :: "tape \<Rightarrow> error + real \<times> tape" where
  "random_random (Random u # t) = (if 0 \<le> u \<and> u < 1 then Inr (u, t) else Inl NoDraw)"
| "random_random _ = Inl NoDraw"

fun random_randint :: "int \<Rightarrow> int \<Rightarrow> tape \<Rightarrow> error + nat \<times> tape" where
  "random_randint a b t =
     (if b < a then Inl ValueError
      else case t of
        RandInt k # t' \<Rightarrow> if a \<le> int k \<and> int k \<le> b then Inr (k, t') else Inl NoDraw
      | _ \<Rightarrow> Inl NoDraw)"

fun is_selection :: "'a list \<Rightarrow> 'a list \<Rightarrow> bool" where
  "is_selection [] xs = True"
| "is_selection (y # ys) xs = (y \<in> set xs \<and> is_selection ys (remove1 y xs))"

fun random_sample :: "station list \<Rightarrow> nat \<Rightarrow> tape \<Rightarrow> error + station list \<times> tape" where
  "random_sample population k t =
     (if length population < k then Inl ValueError
      else case t of
        Sample p # t' \<Rightarrow>
          if length p = k \<and> is_selection p population then Inr (p, t') else Inl NoDraw
      | _ \<Rightarrow> Inl NoDraw)"

lemma random_randint_shorter:
  "random_randint a b t = Inr (k, t') \<Longrightarrow> length t' < length t"
  by (auto split: if_splits list.splits draw.splits)

lemma random_random_shorter:
  "random_random t = Inr (u, t') \<Longrightarrow> length t' < length t"
  by (cases t rule: random_random.cases) (auto split: if_splits)

section \<open>The genetic algorithm\<close>

subsection \<open>CreateRoute, CreateInitialPopulation, SortRoutes\<close>

definition CreateRoute ::
  "time_to \<Rightarrow> station list \<Rightarrow> station \<Rightarrow> tape \<Rightarrow> store \<Rightarrow> error + ref \<times> tape \<times> store" where
  "CreateRoute tt station_list first_station t h =
     (case list_remove station_list first_station of
        Inl e \<Rightarrow> Inl e
      | Inr p \<Rightarrow>
          (case random_sample p (length p) t of
             Inl e \<Rightarrow> Inl e
           | Inr (p', t') \<Rightarrow>
               (case Route tt (list_insert 0 first_station p') h of
                  Inl e \<Rightarrow> Inl e
                | Inr (r, h') \<Rightarrow> Inr (r, t', h'))))"

text \<open>\<^verbatim>\<open>for route in range(pop_size): population.append(CreateRoute(...))\<close>\<close>

fun population_loop ::
  "time_to \<Rightarrow> station list \<Rightarrow> station \<Rightarrow> nat \<Rightarrow> ref list \<Rightarrow> tape \<Rightarrow> store
     \<Rightarrow> error + ref list \<times> tape \<times> store" where
  "population_loop tt station_list first_station 0 population t h = Inr (population, t, h)"
| "population_loop tt station_list first_station (Suc n) population t h =
     (case CreateRoute tt station_list first_station t h of
        Inl e \<Rightarrow> Inl e
      | Inr (r, t', h') \<Rightarrow>
          population_loop tt station_list first_station n (population @ [r]) t' h')"

definition CreateInitialPopulation ::
  "time_to \<Rightarrow> int \<Rightarrow> station list \<Rightarrow> station \<Rightarrow> tape \<Rightarrow> store
     \<Rightarrow> error + ref list \<times> tape \<times> store" where
  "CreateInitialPopulation tt pop_size station_list first_station t h =
     population_loop tt station_list first_station (nat pop_size) [] t h"

text \<open>Python's \<^verbatim>\<open>sorted\<close> is stable, as \<open>sort_key\<close> is.\<close>

definition SortRoutes :: "store \<Rightarrow> ref list \<Rightarrow> ref list" where
  "SortRoutes h population = sort_key (\<lambda>r. time_taken (h ! r)) population"

subsection \<open>SetParentsFitness\<close>

text \<open>A row of the pandas dataframe: the columns Route, Fitness, Cum_Sum and CDF.\<close>

record row =
  col_Route :: ref
  col_Fitness :: real
  col_Cum_Sum :: real
  col_CDF :: real

fun cumsum_from :: "real \<Rightarrow> real list \<Rightarrow> real list" where
  "cumsum_from acc [] = []"
| "cumsum_from acc (x # xs) = (acc + x) # cumsum_from (acc + x) xs"

definition cumsum :: "real list \<Rightarrow> real list" where
  "cumsum xs = cumsum_from 0 xs"

text \<open>
  Where a duration is zero, or the fitnesses sum to zero, pandas computes with
  \<^verbatim>\<open>inf\<close> and \<^verbatim>\<open>nan\<close>, which are no real numbers: the model stops there with
  \<open>NonFinite\<close>.
\<close>

definition SetParentsFitness :: "store \<Rightarrow> ref list \<Rightarrow> error + row list" where
  "SetParentsFitness h sorted_routes =
     (let durations = map (\<lambda>r. time_taken (h ! r)) sorted_routes;
          fitness = map (\<lambda>d. 1 / d) durations;
          cum_sum = cumsum fitness;
          total = sum_list fitness
      in if 0 \<in> set durations \<or> (sorted_routes \<noteq> [] \<and> total = 0) then Inl NonFinite
         else Inr (map (\<lambda>(r, f, c).
                \<lparr>col_Route = r, col_Fitness = f, col_Cum_Sum = c, col_CDF = c / total\<rparr>)
                (zip sorted_routes (zip fitness cum_sum))))"

subsection \<open>SelectParents\<close>

text \<open>
  The inner loop of the redraw:
  \<^verbatim>\<open>for m_parent in range(parents.shape[0]):
      if pick_father <= parents.iat[m_parent, 3]:
          father[-1] = parents.iat[m_parent, 0]; break\<close>
\<close>

fun rescan_father :: "row list \<Rightarrow> real \<Rightarrow> ref list \<Rightarrow> ref list" where
  "rescan_father [] pick_father father = father"
| "rescan_father (m_parent # rest) pick_father father =
     (if pick_father \<le> col_CDF m_parent
      then father[length father - 1 := col_Route m_parent]
      else rescan_father rest pick_father father)"

text \<open>\<^verbatim>\<open>while mother[-1] == father[-1]: pick_father = random.random(); ...\<close>\<close>

function reroll_father ::
  "row list \<Rightarrow> ref list \<Rightarrow> ref list \<Rightarrow> tape \<Rightarrow> error + ref list \<times> ref list \<times> tape" where
  "reroll_father parents mother father t =
     (if last mother = last father
      then (case random_random t of
              Inl e \<Rightarrow> Inl e
            | Inr (pick_father, t') \<Rightarrow>
                reroll_father parents mother (rescan_father parents pick_father father) t')
      else Inr (mother, father, t))"
  by pat_completeness auto
termination
  by (relation "measure (\<lambda>(parents, mother, father, t). length t)")
     (auto dest: random_random_shorter)

declare reroll_father.simps [simp del]

text \<open>
  The loop \<^verbatim>\<open>for parent in range(parents.shape[0])\<close> over the rows that are left, with the
  flags \<^verbatim>\<open>mother_selected\<close> and \<^verbatim>\<open>father_selected\<close>. Leaving the loop at its end, without
  \<^verbatim>\<open>break\<close>, keeps whatever was appended.
\<close>

fun scan_parents ::
  "row list \<Rightarrow> row list \<Rightarrow> real \<Rightarrow> real \<Rightarrow> bool \<Rightarrow> bool \<Rightarrow> ref list \<Rightarrow> ref list \<Rightarrow> tape
     \<Rightarrow> error + ref list \<times> ref list \<times> tape" where
  "scan_parents parents [] pick_mother pick_father mother_selected father_selected
     mother father t = Inr (mother, father, t)"
| "scan_parents parents (parent # rest) pick_mother pick_father mother_selected father_selected
     mother father t =
     (let sel_m = (pick_mother \<le> col_CDF parent \<and> \<not> mother_selected);
          mother1 = (if sel_m then mother @ [col_Route parent] else mother);
          mother_selected1 = (sel_m \<or> mother_selected);
          sel_f = (pick_father \<le> col_CDF parent \<and> \<not> father_selected);
          father1 = (if sel_f then father @ [col_Route parent] else father);
          father_selected1 = (sel_f \<or> father_selected)
      in if mother_selected1 \<and> father_selected1
         then reroll_father parents mother1 father1 t
         else scan_parents parents rest pick_mother pick_father mother_selected1
                father_selected1 mother1 father1 t)"

text \<open>\<^verbatim>\<open>for mating in range(parents.shape[0] - elite_size)\<close>\<close>

fun select_loop ::
  "row list \<Rightarrow> nat \<Rightarrow> ref list \<Rightarrow> ref list \<Rightarrow> tape \<Rightarrow> error + ref list \<times> ref list \<times> tape" where
  "select_loop parents 0 mother father t = Inr (mother, father, t)"
| "select_loop parents (Suc n) mother father t =
     (case random_random t of
        Inl e \<Rightarrow> Inl e
      | Inr (pick_mother, t1) \<Rightarrow>
          (case random_random t1 of
             Inl e \<Rightarrow> Inl e
           | Inr (pick_father, t2) \<Rightarrow>
               (case scan_parents parents parents pick_mother pick_father False False
                       mother father t2 of
                  Inl e \<Rightarrow> Inl e
                | Inr (mother', father', t3) \<Rightarrow> select_loop parents n mother' father' t3)))"

definition SelectParents ::
  "row list \<Rightarrow> int \<Rightarrow> tape \<Rightarrow> error + ref list \<times> ref list \<times> tape" where
  "SelectParents parents elite_size t =
     select_loop parents (nat (int (length parents) - elite_size)) [] [] t"

subsection \<open>Procreate\<close>

text \<open>
  Drawing the two indices, in \<^verbatim>\<open>Procreate\<close> and again in \<^verbatim>\<open>Mutate\<close>:
  \<^verbatim>\<open>genes = [random.randint(1, n-1), random.randint(1, n-1)]
  while genes[0] == genes[1]: genes[1] = random.randint(1, n-1)\<close>
  where \<open>n\<close> is the length of the path.
\<close>

function reroll_gene :: "nat \<Rightarrow> nat \<Rightarrow> nat \<Rightarrow> tape \<Rightarrow> error + (nat \<times> nat) \<times> tape" where
  "reroll_gene n g0 g1 t =
     (if g0 = g1
      then (case random_randint 1 (int n - 1) t of
              Inl e \<Rightarrow> Inl e
            | Inr (g1', t') \<Rightarrow> reroll_gene n g0 g1' t')
      else Inr ((g0, g1), t))"
  by pat_completeness auto
termination
  by (relation "measure (\<lambda>(n, g0, g1, t). length t)")
     (auto dest: random_randint_shorter simp del: random_randint.simps)

declare reroll_gene.simps [simp del]

definition draw_genes :: "nat \<Rightarrow> tape \<Rightarrow> error + (nat \<times> nat) \<times> tape" where
  "draw_genes n t =
     (case random_randint 1 (int n - 1) t of
        Inl e \<Rightarrow> Inl e
      | Inr (g0, t1) \<Rightarrow>
          (case random_randint 1 (int n - 1) t1 of
             Inl e \<Rightarrow> Inl e
           | Inr (g1, t2) \<Rightarrow> reroll_gene n g0 g1 t2))"

text \<open>\<^verbatim>\<open>for gene in father[mating].path[first_gene:last_gene]: child.remove(gene)\<close>\<close>

fun remove_genes :: "station list \<Rightarrow> station list \<Rightarrow> error + station list" where
  "remove_genes [] child = Inr child"
| "remove_genes (gene # genes) child =
     (case list_remove child gene of
        Inl e \<Rightarrow> Inl e
      | Inr child' \<Rightarrow> remove_genes genes child')"

text \<open>
  \<^verbatim>\<open>for gene in father[mating].path[first_gene:last_gene]:
      child.insert(father[mating].path.index(gene), gene)\<close>
\<close>

fun insert_genes :: "station list \<Rightarrow> station list \<Rightarrow> station list \<Rightarrow> error + station list" where
  "insert_genes father_path [] child = Inr child"
| "insert_genes father_path (gene # genes) child =
     (case list_index father_path gene of
        Inl e \<Rightarrow> Inl e
      | Inr i \<Rightarrow> insert_genes father_path genes (list_insert i gene child))"

text \<open>The child's path from the two parents' paths and the two indices drawn.\<close>

definition splice_child :: "station list \<Rightarrow> station list \<Rightarrow> nat \<Rightarrow> nat \<Rightarrow> error + station list" where
  "splice_child mother_path father_path g0 g1 =
     (let first_gene = min g0 g1;
          last_gene = max g0 g1
      in case remove_genes (slice father_path first_gene last_gene) mother_path of
           Inl e \<Rightarrow> Inl e
         | Inr child \<Rightarrow> insert_genes father_path (slice father_path first_gene last_gene) child)"

text \<open>
  \<^verbatim>\<open>for mating in range(len(mother))\<close>, reading \<^verbatim>\<open>mother[mating]\<close> and
  \<^verbatim>\<open>father[mating]\<close>; the latter raises \<^verbatim>\<open>IndexError\<close> where \<^verbatim>\<open>father\<close> is shorter.
\<close>

fun mating_loop ::
  "time_to \<Rightarrow> ref list \<Rightarrow> ref list \<Rightarrow> ref list \<Rightarrow> tape \<Rightarrow> store
     \<Rightarrow> error + ref list \<times> tape \<times> store" where
  "mating_loop tt [] father children t h = Inr (children, t, h)"
| "mating_loop tt (m # mother) [] children t h = Inl IndexError"
| "mating_loop tt (m # mother) (f # father) children t h =
     (case draw_genes (length (path (h ! f))) t of
        Inl e \<Rightarrow> Inl e
      | Inr ((g0, g1), t1) \<Rightarrow>
          (case splice_child (path (h ! m)) (path (h ! f)) g0 g1 of
             Inl e \<Rightarrow> Inl e
           | Inr child \<Rightarrow>
               (case Route tt child h of
                  Inl e \<Rightarrow> Inl e
                | Inr (r, h1) \<Rightarrow> mating_loop tt mother father (children @ [r]) t1 h1)))"

text \<open>
  The elites are \<^verbatim>\<open>parents.iat[elite, 0]\<close> for \<^verbatim>\<open>elite in range(elite_size)\<close>, which
  raises \<^verbatim>\<open>IndexError\<close> past the last row.
\<close>

definition Procreate ::
  "time_to \<Rightarrow> row list \<Rightarrow> int \<Rightarrow> tape \<Rightarrow> store \<Rightarrow> error + ref list \<times> tape \<times> store" where
  "Procreate tt parents elite_size t h =
     (if int (length parents) < elite_size then Inl IndexError
      else case SelectParents parents elite_size t of
             Inl e \<Rightarrow> Inl e
           | Inr (mother, father, t1) \<Rightarrow>
               mating_loop tt mother father
                 (map col_Route (take (nat elite_size) parents)) t1 h)"

subsection \<open>Mutate\<close>

text \<open>
  \<^verbatim>\<open>mutate_path[genes[0]], mutate_path[genes[1]] = mutate_path[genes[1]], mutate_path[genes[0]]\<close>
\<close>

definition swap_stations :: "station list \<Rightarrow> nat \<Rightarrow> nat \<Rightarrow> error + station list" where
  "swap_stations mutate_path g0 g1 =
     (if g0 < length mutate_path \<and> g1 < length mutate_path
      then Inr ((mutate_path[g0 := mutate_path ! g1])[g1 := mutate_path ! g0])
      else Inl IndexError)"

text \<open>
  \<^verbatim>\<open>for child in range(len(children))\<close> over the indices that are left. A candidate chosen
  for mutation is deleted from the list, and the new Route object is inserted in its place.
\<close>

fun mutate_loop ::
  "time_to \<Rightarrow> real \<Rightarrow> nat list \<Rightarrow> ref list \<Rightarrow> tape \<Rightarrow> store
     \<Rightarrow> error + ref list \<times> tape \<times> store" where
  "mutate_loop tt mutation_rate [] children t h = Inr (children, t, h)"
| "mutate_loop tt mutation_rate (child # rest) children t h =
     (case random_random t of
        Inl e \<Rightarrow> Inl e
      | Inr (mutate_roll, t1) \<Rightarrow>
          if mutate_roll \<le> mutation_rate
          then (case draw_genes (length (path (h ! (children ! child)))) t1 of
                  Inl e \<Rightarrow> Inl e
                | Inr ((g0, g1), t2) \<Rightarrow>
                    (case swap_stations (path (h ! (children ! child))) g0 g1 of
                       Inl e \<Rightarrow> Inl e
                     | Inr mutate_path \<Rightarrow>
                         (case Route tt mutate_path h of
                            Inl e \<Rightarrow> Inl e
                          | Inr (r, h1) \<Rightarrow>
                              mutate_loop tt mutation_rate rest
                                (list_insert child r (list_del child children)) t2 h1)))
          else mutate_loop tt mutation_rate rest children t1 h)"

definition Mutate ::
  "time_to \<Rightarrow> ref list \<Rightarrow> real \<Rightarrow> tape \<Rightarrow> store \<Rightarrow> error + ref list \<times> tape \<times> store" where
  "Mutate tt children mutation_rate t h =
     mutate_loop tt mutation_rate [0..<length children] children t h"

subsection \<open>CreateNextGeneration and GeneticAlgorithm\<close>

definition CreateNextGeneration ::
  "time_to \<Rightarrow> ref list \<Rightarrow> int \<Rightarrow> real \<Rightarrow> tape \<Rightarrow> store \<Rightarrow> error + ref list \<times> tape \<times> store" where
  "CreateNextGeneration tt previous_generation elite_size mutation_rate t h =
     (case SetParentsFitness h previous_generation of
        Inl e \<Rightarrow> Inl e
      | Inr parents \<Rightarrow>
          (case Procreate tt parents elite_size t h of
             Inl e \<Rightarrow> Inl e
           | Inr (children, t1, h1) \<Rightarrow>
               (case Mutate tt children mutation_rate t1 h1 of
                  Inl e \<Rightarrow> Inl e
                | Inr (next_generation, t2, h2) \<Rightarrow>
                    Inr (SortRoutes h2 next_generation, t2, h2))))"

definition np_mean :: "real list \<Rightarrow> real" where
  "np_mean xs = sum_list xs / real (length xs)"

definition np_std :: "real list \<Rightarrow> real" where
  "np_std xs = sqrt (np_mean (map (\<lambda>x. (x - np_mean xs)\<^sup>2) xs))"

definition route_durations :: "store \<Rightarrow> ref list \<Rightarrow> real list" where
  "route_durations h population = map (\<lambda>r. time_taken (h ! r)) population"

text \<open>
  The state of the loop \<^verbatim>\<open>for gen in range(n_generations)\<close>: the population, the
  best durations and the pairs of mean and standard deviation so far.
  \<^verbatim>\<open>population[0]\<close> raises \<^verbatim>\<open>IndexError\<close> on an empty population.
\<close>

fun generation_loop ::
  "time_to \<Rightarrow> nat \<Rightarrow> int \<Rightarrow> real \<Rightarrow> ref list \<Rightarrow> real list \<Rightarrow> (real \<times> real) list
     \<Rightarrow> tape \<Rightarrow> store
     \<Rightarrow> error + (ref list \<times> real list \<times> (real \<times> real) list) \<times> tape \<times> store" where
  "generation_loop tt 0 elite_size mutation_rate population best_route_gen mean_sigma_gen t h =
     Inr ((population, best_route_gen, mean_sigma_gen), t, h)"
| "generation_loop tt (Suc n) elite_size mutation_rate population best_route_gen
     mean_sigma_gen t h =
     (case CreateNextGeneration tt population elite_size mutation_rate t h of
        Inl e \<Rightarrow> Inl e
      | Inr (population', t1, h1) \<Rightarrow>
          (case population' of
             [] \<Rightarrow> Inl IndexError
           | best # _ \<Rightarrow>
               generation_loop tt n elite_size mutation_rate population'
                 (best_route_gen @ [time_taken (h1 ! best)])
                 (mean_sigma_gen @ [(np_mean (route_durations h1 population'),
                                     np_std (route_durations h1 population'))])
                 t1 h1))"

record results =
  best_route_gen :: "real list"
  mean_sigma_gen :: "(real \<times> real) list"
  final_gen_df :: "(row \<times> real) list"

text \<open>
  \<open>rseed\<close> is \<^verbatim>\<open>random.seed\<close>: the values the module returns after seeding with a given
  number. \<open>t0\<close> is the state of the module when the function is called.
\<close>

definition GeneticAlgorithm ::
  "(int \<Rightarrow> tape) \<Rightarrow> time_to \<Rightarrow> station list \<Rightarrow> station \<Rightarrow> int \<Rightarrow> int \<Rightarrow> int \<Rightarrow> real \<Rightarrow> int
     \<Rightarrow> tape \<Rightarrow> store \<Rightarrow> error + results \<times> tape \<times> store" where
  "GeneticAlgorithm rseed tt station_list first_station n_generations pop_size elite_size
     mutation_rate random_seed t0 h =
     (case CreateInitialPopulation tt pop_size station_list first_station
             (rseed random_seed) h of
        Inl e \<Rightarrow> Inl e
      | Inr (population0, t1, h1) \<Rightarrow>
          (case SortRoutes h1 population0 of
             [] \<Rightarrow> Inl IndexError
           | best # others \<Rightarrow>
               (case generation_loop tt (nat n_generations) elite_size mutation_rate
                       (best # others) [time_taken (h1 ! best)]
                       [(np_mean (route_durations h1 (best # others)),
                         np_std (route_durations h1 (best # others)))] t1 h1 of
                  Inl e \<Rightarrow> Inl e
                | Inr ((population, best_gen, mean_sigma), t2, h2) \<Rightarrow>
                    (case SetParentsFitness h2 population of
                       Inl e \<Rightarrow> Inl e
                     | Inr df \<Rightarrow>
                         Inr (\<lparr>best_route_gen = best_gen, mean_sigma_gen = mean_sigma,
                               final_gen_df = zip df (route_durations h2 population)\<rparr>,
                              t2, h2)))))"

section \<open>Example data\<close>

text \<open>
  Three stations \<open>A = 0\<close> (the start), \<open>B = 1\<close> and \<open>C = 2\<close> with the durations
  \<open>AB = 5\<close>, \<open>AC = 10\<close> and \<open>BC = 3\<close>; \<^verbatim>\<open>SetTimeTo\<close> gives every station an entry for
  itself as well.
\<close>

definition tube3 :: time_to where
  "tube3 a =
     (if a = 0 then [0 \<mapsto> 0, 1 \<mapsto> 5, 2 \<mapsto> 10]
      else if a = 1 then [0 \<mapsto> 5, 1 \<mapsto> 0, 2 \<mapsto> 3]
      else if a = 2 then [0 \<mapsto> 10, 1 \<mapsto> 3, 2 \<mapsto> 0]
      else Map.empty)"

section \<open>Route construction\<close>

lemma duration_loop_sum:
  "duration_loop tt p acc = Inr d \<Longrightarrow>
   d = acc + sum_list (map (\<lambda>i. the (tt (p ! i) (p ! Suc i))) [0..<length p - 1])"
proof (induction tt p acc rule: duration_loop.induct)
  case (1 tt a b rest acc)
  then obtain x where x: "tt a b = Some x" by (auto split: option.splits)
  with 1 have "d = (acc + x) + sum_list (map (\<lambda>i. the (tt ((b # rest) ! i) ((b # rest) ! Suc i)))
                                     [0..<length (b # rest) - 1])"
    by simp
  moreover have "[0..<length (a # b # rest) - 1] = 0 # map Suc [0..<length (b # rest) - 1]"
    by (simp add: upt_conv_Cons map_Suc_upt del: upt_Suc)
  ultimately show ?case using x by (simp add: comp_def del: upt_Suc)
qed simp_all

lemma Route_Inr:
  "Route tt p h = Inr (r, h') \<longleftrightarrow>
   (\<exists>d. duration_loop tt p 0 = Inr d \<and> r = length h \<and> h' = h @ [\<lparr>path = p, time_taken = d\<rparr>])"
  by (auto simp: Route_def split: sum.splits)

text \<open>
  C6. The duration stored in a Route object at construction is the sum over
  \<open>i = 0 \<dots> n - 2\<close> of the duration from \<open>path[i]\<close> to \<open>path[i+1]\<close>, read in the dictionary
  of \<open>path[i]\<close>; running the loop of the constructor again on the stored path gives the
  stored value.
\<close>

theorem Route_time_taken_is_pairwise_sum:
  assumes "Route tt p h = Inr (r, h')"
  shows "path (h' ! r) = p
       \<and> time_taken (h' ! r) = pairwise_sum tt p
       \<and> duration_loop tt (path (h' ! r)) 0 = Inr (time_taken (h' ! r))"
proof -
  from assms obtain d where d: "duration_loop tt p 0 = Inr d" "r = length h"
    "h' = h @ [\<lparr>path = p, time_taken = d\<rparr>]"
    by (auto simp: Route_Inr)
  from duration_loop_sum [OF d(1)] have "d = pairwise_sum tt p"
    by (simp add: pairwise_sum_def)
  with d show ?thesis by simp
qed

theorem Route_time_taken_is_pairwise_sum_witness:
  "Route tube3 [0, 1, 2] [] = Inr (0, [\<lparr>path = [0, 1, 2], time_taken = 8\<rparr>])
   \<and> pairwise_sum tube3 [0, 1, 2] = 8
   \<and> duration_loop tube3 [0, 1, 2] 0 = Inr 8"
proof -
  have r: "Route tube3 [0, 1, 2] [] = Inr (0, [\<lparr>path = [0, 1, 2], time_taken = 8\<rparr>])"
    by (simp add: Route_def tube3_def)
  from Route_time_taken_is_pairwise_sum [OF r] r show ?thesis by simp
qed

lemma duration_loop_error_kind:
  "duration_loop tt p acc = Inl e \<Longrightarrow>
   \<exists>i. Suc i < length p \<and> tt (p ! i) (p ! Suc i) = None \<and> e = KeyError (p ! Suc i)"
proof (induction tt p acc rule: duration_loop.induct)
  case (1 tt a b rest acc)
  show ?case
  proof (cases "tt a b")
    case None
    with 1 show ?thesis by (intro exI [of _ 0]) simp
  next
    case (Some x)
    with 1 obtain i where "Suc i < length (b # rest)"
      "tt ((b # rest) ! i) ((b # rest) ! Suc i) = None" "e = KeyError ((b # rest) ! Suc i)"
      by auto
    then show ?thesis by (intro exI [of _ "Suc i"]) simp
  qed
qed simp_all

lemma duration_loop_missing:
  "Suc i < length p \<Longrightarrow> tt (p ! i) (p ! Suc i) = None \<Longrightarrow>
   \<exists>k. duration_loop tt p acc = Inl (KeyError k)"
proof (induction tt p acc arbitrary: i rule: duration_loop.induct)
  case (1 tt a b rest acc)
  show ?case
  proof (cases "tt a b")
    case None
    then show ?thesis by simp
  next
    case (Some x)
    with "1.prems" obtain j where "i = Suc j" by (cases i) auto
    with 1 Some show ?thesis by auto
  qed
qed simp_all

text \<open>
  C8. Constructing a Route object fails exactly when some consecutive pair of the path has
  no entry in the dictionary of its first station, and then with \<^verbatim>\<open>KeyError\<close> (the
  specification's MissingDistanceError) and nothing else; when every consecutive pair has
  an entry, the construction succeeds.
\<close>

theorem Route_fails_iff_missing:
  "((\<exists>k. Route tt p h = Inl (KeyError k)) \<longleftrightarrow>
      (\<exists>i. Suc i < length p \<and> tt (p ! i) (p ! Suc i) = None))
   \<and> ((\<exists>r h'. Route tt p h = Inr (r, h')) \<longleftrightarrow>
      (\<forall>i. Suc i < length p \<longrightarrow> tt (p ! i) (p ! Suc i) \<noteq> None))
   \<and> (\<forall>e. Route tt p h = Inl e \<longrightarrow> (\<exists>k. e = KeyError k))"
proof -
  have a: "\<exists>i. Suc i < length p \<and> tt (p ! i) (p ! Suc i) = None \<and> e = KeyError (p ! Suc i)"
    if "Route tt p h = Inl e" for e
    using that duration_loop_error_kind [of tt p 0 e] by (auto simp: Route_def split: sum.splits)
  have b: "\<exists>k. Route tt p h = Inl (KeyError k)"
    if "Suc i < length p" "tt (p ! i) (p ! Suc i) = None" for i
    using that duration_loop_missing [of i p tt 0] by (auto simp: Route_def)
  have c: "(\<exists>r h'. Route tt p h = Inr (r, h')) \<or> (\<exists>e. Route tt p h = Inl e)"
    by (auto simp: Route_def split: sum.splits)
  from a b c show ?thesis by (metis sum.distinct(1))
qed

text \<open>
  With the entry for \<open>C\<close> taken out of the dictionary of \<open>B\<close>, the path \<open>A, B, C\<close>
  raises \<^verbatim>\<open>KeyError\<close> with the key \<open>C\<close>, and the path \<open>B, A, C\<close> is constructed.
\<close>

theorem Route_fails_iff_missing_witness:
  "Route (tube3 (1 := (tube3 1) (2 := None))) [0, 1, 2] [] = Inl (KeyError 2)
   \<and> (\<exists>i. Suc i < length [0, 1, 2 :: nat]
          \<and> (tube3 (1 := (tube3 1) (2 := None))) ([0, 1, 2] ! i) ([0, 1, 2] ! Suc i) = None)
   \<and> Route (tube3 (1 := (tube3 1) (2 := None))) [1, 0, 2] []
       = Inr (0, [\<lparr>path = [1, 0, 2], time_taken = 15\<rparr>])"
proof -
  have l: "Route (tube3 (1 := (tube3 1) (2 := None))) [0, 1, 2] [] = Inl (KeyError 2)"
    by (simp add: Route_def tube3_def)
  have r: "Route (tube3 (1 := (tube3 1) (2 := None))) [1, 0, 2] []
             = Inr (0, [\<lparr>path = [1, 0, 2], time_taken = 15\<rparr>])"
    by (simp add: Route_def tube3_def)
  from l have "\<exists>k. Route (tube3 (1 := (tube3 1) (2 := None))) [0, 1, 2] [] = Inl (KeyError k)"
    by blast
  with Route_fails_iff_missing [of "tube3 (1 := (tube3 1) (2 := None))" "[0, 1, 2]" "[]"]
  have "\<exists>i. Suc i < length [0, 1, 2 :: nat]
          \<and> (tube3 (1 := (tube3 1) (2 := None))) ([0, 1, 2] ! i) ([0, 1, 2] ! Suc i) = None"
    by blast
  with l r show ?thesis by blast
qed

section \<open>Crossover\<close>

text \<open>
  C1. With the mother's path \<open>A, B, C, D, E, F\<close>, the father's path \<open>A, F, B, E, D, C\<close> and
  the indices 2 and 5 drawn (in either order), the segment taken from the father is
  \<open>B, E, D\<close>; removing it from a copy of the mother's path leaves \<open>A, C, F\<close>; inserting
  \<open>B\<close>, \<open>E\<close> and \<open>D\<close> one after the other, each at its index in the father's path and in
  the list as it then is, gives \<open>A, C, B, F\<close>, then \<open>A, C, B, E, F\<close>, then the child
  \<open>A, C, B, E, D, F\<close>.
\<close>

theorem crossover_scenario:
  assumes "distinct [A, B, C, D, E, F]"
  shows "slice [A, F, B, E, D, C] (min 2 5) (max 2 5) = [B, E, D]
       \<and> remove_genes [B, E, D] [A, B, C, D, E, F] = Inr [A, C, F]
       \<and> list_index [A, F, B, E, D, C] B = Inr 2
       \<and> list_index [A, F, B, E, D, C] E = Inr 3
       \<and> list_index [A, F, B, E, D, C] D = Inr 4
       \<and> list_insert 2 B [A, C, F] = [A, C, B, F]
       \<and> list_insert 3 E [A, C, B, F] = [A, C, B, E, F]
       \<and> list_insert 4 D [A, C, B, E, F] = [A, C, B, E, D, F]
       \<and> insert_genes [A, F, B, E, D, C] [B, E, D] [A, C, F] = Inr [A, C, B, E, D, F]
       \<and> splice_child [A, B, C, D, E, F] [A, F, B, E, D, C] 2 5 = Inr [A, C, B, E, D, F]
       \<and> splice_child [A, B, C, D, E, F] [A, F, B, E, D, C] 5 2 = Inr [A, C, B, E, D, F]"
  using assms by (auto simp add: splice_child_def slice_def list_remove_def list_insert_def)

theorem crossover_scenario_witness:
  "distinct [0, 1, 2, 3, 4, 5 :: nat]
   \<and> splice_child [0, 1, 2, 3, 4, 5] [0, 5, 1, 4, 3, 2] 2 5 = Inr [0, 2, 1, 4, 3, 5]"
proof -
  have d: "distinct [0, 1, 2, 3, 4, 5 :: nat]" by simp
  from crossover_scenario [OF d] d show ?thesis by blast
qed

end
